theory Spec2Isabelle
  imports Main
begin

section \<open>Values of the host language\<close>

text \<open>
  The library is generic TypeScript; at run time every payload is an untyped JavaScript
  value. The values the classes of the repository handle are collected in one universe.
  Objects whose identity matters (instances of \<open>Result\<close>, symbols) are references; a
  promise is represented by the way it eventually settles.
\<close>

text \<open>\<open>TurnstileAPIErrorCode\<close> of the CAPTCHA wrapper: a union of seven string literals.\<close>

datatype TurnstileAPIErrorCode =
    missing_input_secret
  | invalid_input_secret
  | missing_input_response
  | invalid_input_response
  | bad_request
  | timeout_or_duplicate
  | internal_error

text \<open>
  \<open>TunstileAPIResponse\<close>: the union of the success and the error response structure,
  discriminated by the field \<open>success\<close>.
\<close>

datatype TunstileAPIResponse =
    TurnstileAPISuccessResponse
      (challenge_ts: string) (hostname: string)
      (error_codes: "TurnstileAPIErrorCode list") (action: string) (cdata: string)
  | TurnstileAPIErrorResponse
      (error_codes: "TurnstileAPIErrorCode list")

text \<open>How a promise ends: fulfilled with a value, rejected with a reason, or never.\<close>

datatype ('a, 'e) settlement = Fulfilled 'a | Rejected 'e | Pending

datatype jsval =
    Undefined
  | Null
  | Boolean bool
  | Number int
  | Str string
  | Symbol nat
  | ResultRef nat
  | Promise "(jsval, jsval) settlement"
  | Thenable "(jsval, jsval) settlement"
  | Panic string jsval
  | TurnstileError string "TurnstileAPIErrorCode list"
  | TypeError string
  | Body TunstileAPIResponse

text \<open>
  \<^item> \<open>Symbol n\<close>: a symbol, \<open>n\<close> its identity. Two symbols are the same value exactly
    when they are the same symbol.
  \<^item> \<open>ResultRef a\<close>: the instance of \<open>Result\<close> at address \<open>a\<close> of the heap below.
  \<^item> \<open>Promise p\<close>: an instance of the host class \<open>Promise\<close> that settles as \<open>p\<close>.
  \<^item> \<open>Thenable p\<close>: an object with a \<open>then\<close> method that is no instance of
    \<open>Promise\<close>; awaiting it would give \<open>p\<close>.
  \<^item> \<open>Panic message cause\<close>: an instance of \<open>class Panic extends Error\<close>, built by
    \<open>super(message, { cause })\<close>.
  \<^item> \<open>TurnstileError message codes\<close>: an instance of \<open>class TurnstileError\<close>.
  \<^item> \<open>TypeError message\<close>: the host's error for a property read on no object.
  \<^item> \<open>Body r\<close>: a parsed response body of the declared type.
\<close>

text \<open>
  \<open>Number\<close> holds the integer-valued numbers; no operation of the repository computes
  with a number. The host never fulfils a promise with a promise or a thenable, so a
  value \<open>Promise (Fulfilled (Promise q))\<close> stands for nothing the program can meet.
\<close>

text \<open>\<open>value instanceof Promise\<close>\<close>

fun instanceof_Promise :: "jsval \<Rightarrow> bool" where
  "instanceof_Promise (Promise p) = True"
| "instanceof_Promise v = False"

text \<open>
  What \<open>await value\<close> waits for: a promise or a thenable settles as it settles, any other
  value is there at once.
\<close>

fun await_settlement :: "jsval \<Rightarrow> (jsval, jsval) settlement" where
  "await_settlement (Promise p) = p"
| "await_settlement (Thenable p) = p"
| "await_settlement v = Fulfilled v"

section \<open>The heap of Result instances and effectful computations\<close>

text \<open>
  \<open>type Ok<T> = { success: true; value: T }\<close>, \<open>type Err<E> = { success: false; value: E }\<close>
  and \<open>ResultInner<T, E> = Ok<T> | Err<E>\<close>: one object with the two fields (the field
  \<open>value\<close> is called \<open>val\<close> here).
\<close>

record ResultInner =
  success :: bool
  val :: jsval

text \<open>
  A \<open>Result\<close> is an object with the one public field \<open>innerResult\<close>. The heap holds the
  \<open>innerResult\<close> of every instance, in the order of their construction; the address of an
  instance is its index. \<open>world\<close> is everything else a callback of the caller may read or
  write.
\<close>

record 'w state =
  heap :: "ResultInner list"
  world :: 'w

text \<open>A call returns a value or throws one; it may change the state in both cases.\<close>

datatype 'a outcome = Returns 'a | Throws jsval

type_synonym ('a, 'w) comp = "'w state \<Rightarrow> 'a outcome \<times> 'w state"

definition ret :: "'a \<Rightarrow> ('a, 'w) comp" where
  "ret a s = (Returns a, s)"

definition throw :: "jsval \<Rightarrow> ('a, 'w) comp" where
  "throw e s = (Throws e, s)"

text \<open>Sequencing: a throw of the first computation skips the second.\<close>

definition bind :: "('a, 'w) comp \<Rightarrow> ('a \<Rightarrow> ('b, 'w) comp) \<Rightarrow> ('b, 'w) comp" where
  "bind m k s = (case m s of (Returns a, s') \<Rightarrow> k a s' | (Throws e, s') \<Rightarrow> (Throws e, s'))"

text \<open>
  \<open>this.innerResult\<close>. The host language has no dangling reference; an address outside the
  heap is given the host's behaviour for a property read on \<open>undefined\<close>, so that every
  operation is total.
\<close>

definition innerResult :: "nat \<Rightarrow> (ResultInner, 'w) comp" where
  "innerResult this s =
     (if this < length (heap s) then (Returns (heap s ! this), s)
      else (Throws (TypeError ''Cannot read properties of undefined''), s))"

text \<open>\<open>new Result<T, E>(innerResult)\<close>: a fresh instance, behind every existing one.\<close>

definition new_Result :: "ResultInner \<Rightarrow> (nat, 'w) comp" where
  "new_Result inner s = (Returns (length (heap s)), s\<lparr>heap := heap s @ [inner]\<rparr>)"

text \<open>\<open>static ok(value)\<close>; a call without argument passes \<open>Undefined\<close>.\<close>

definition Result_ok :: "jsval \<Rightarrow> (nat, 'w) comp" where
  "Result_ok v = new_Result \<lparr>success = True, val = v\<rparr>"

text \<open>\<open>static err(value)\<close>\<close>

definition Result_err :: "jsval \<Rightarrow> (nat, 'w) comp" where
  "Result_err v = new_Result \<lparr>success = False, val = v\<rparr>"

text \<open>\<open>static readonly none: unique symbol = Symbol("none")\<close>: the symbol made when the
  class is initialised; it is given the identity 0.\<close>

definition Result_none :: jsval where
  "Result_none = Symbol 0"

section \<open>The methods of Result\<close>

text \<open>\<open>match(ok, err)\<close>\<close>

definition match ::
  "nat \<Rightarrow> (jsval \<Rightarrow> ('a, 'w) comp) \<Rightarrow> (jsval \<Rightarrow> ('a, 'w) comp) \<Rightarrow> ('a, 'w) comp" where
  "match this ok err =
     bind (innerResult this) (\<lambda>r. if success r then ok (val r) else err (val r))"

text \<open>\<open>isOk()\<close>: \<open>return this.innerResult.success\<close>\<close>

definition isOk :: "nat \<Rightarrow> (bool, 'w) comp" where
  "isOk this = bind (innerResult this) (\<lambda>r. ret (success r))"

text \<open>\<open>isOkAnd(f)\<close>\<close>

definition isOkAnd :: "nat \<Rightarrow> (jsval \<Rightarrow> (bool, 'w) comp) \<Rightarrow> (bool, 'w) comp" where
  "isOkAnd this f = match this (\<lambda>value. f value) (\<lambda>_. ret False)"

text \<open>\<open>isErr()\<close>: \<open>return !this.innerResult.success\<close>\<close>

definition isErr :: "nat \<Rightarrow> (bool, 'w) comp" where
  "isErr this = bind (innerResult this) (\<lambda>r. ret (\<not> success r))"

text \<open>\<open>isErrAnd(f)\<close>\<close>

definition isErrAnd :: "nat \<Rightarrow> (jsval \<Rightarrow> (bool, 'w) comp) \<Rightarrow> (bool, 'w) comp" where
  "isErrAnd this f = match this (\<lambda>_. ret False) (\<lambda>err. f err)"

text \<open>
  The optional parameter \<open>noneSymbol?: boolean\<close> of \<open>ok\<close> and \<open>err\<close>: \<open>None\<close> when the
  argument is left out (\<open>undefined\<close>, which is falsy).
\<close>

fun truthy_flag :: "bool option \<Rightarrow> bool" where
  "truthy_flag None = False"
| "truthy_flag (Some b) = b"

text \<open>\<open>ok(noneSymbol?)\<close>\<close>

definition ok :: "nat \<Rightarrow> bool option \<Rightarrow> (jsval, 'w) comp" where
  "ok this noneSymbol =
     bind (innerResult this) (\<lambda>r.
       if success r then ret (val r)
       else if truthy_flag noneSymbol then ret Result_none
       else ret Null)"

text \<open>\<open>err(noneSymbol?)\<close>\<close>

definition err :: "nat \<Rightarrow> bool option \<Rightarrow> (jsval, 'w) comp" where
  "err this noneSymbol =
     bind (innerResult this) (\<lambda>r.
       if \<not> success r then ret (val r)
       else if truthy_flag noneSymbol then ret Result_none
       else ret Null)"

text \<open>\<open>map(op)\<close>\<close>

definition map_result :: "nat \<Rightarrow> (jsval \<Rightarrow> (jsval, 'w) comp) \<Rightarrow> (nat, 'w) comp" where
  "map_result this op = match this (\<lambda>value. bind (op value) Result_ok) (\<lambda>_. ret this)"

text \<open>\<open>mapOr(defaultValue, f)\<close>\<close>

definition mapOr :: "nat \<Rightarrow> 'a \<Rightarrow> (jsval \<Rightarrow> ('a, 'w) comp) \<Rightarrow> ('a, 'w) comp" where
  "mapOr this defaultValue f = match this (\<lambda>value. f value) (\<lambda>_. ret defaultValue)"

text \<open>\<open>mapOrElse(defaultValue, f)\<close>\<close>

definition mapOrElse ::
  "nat \<Rightarrow> (jsval \<Rightarrow> ('a, 'w) comp) \<Rightarrow> (jsval \<Rightarrow> ('a, 'w) comp) \<Rightarrow> ('a, 'w) comp" where
  "mapOrElse this defaultValue f = match this (\<lambda>value. f value) (\<lambda>error. defaultValue error)"

text \<open>\<open>mapErr(op)\<close>\<close>

definition mapErr :: "nat \<Rightarrow> (jsval \<Rightarrow> (jsval, 'w) comp) \<Rightarrow> (nat, 'w) comp" where
  "mapErr this op = match this (\<lambda>_. ret this) (\<lambda>error. bind (op error) Result_err)"

text \<open>\<open>inspect(f)\<close>: what \<open>f\<close> returns is dropped.\<close>

definition inspect :: "nat \<Rightarrow> (jsval \<Rightarrow> ('a, 'w) comp) \<Rightarrow> (nat, 'w) comp" where
  "inspect this f =
     bind (innerResult this) (\<lambda>r.
       if success r then bind (f (val r)) (\<lambda>_. ret this) else ret this)"

text \<open>\<open>inspectErr(f)\<close>\<close>

definition inspectErr :: "nat \<Rightarrow> (jsval \<Rightarrow> ('a, 'w) comp) \<Rightarrow> (nat, 'w) comp" where
  "inspectErr this f =
     bind (innerResult this) (\<lambda>r.
       if \<not> success r then bind (f (val r)) (\<lambda>_. ret this) else ret this)"

text \<open>\<open>and(res)\<close>\<close>

definition and_result :: "nat \<Rightarrow> nat \<Rightarrow> (nat, 'w) comp" where
  "and_result this res = match this (\<lambda>_. ret res) (\<lambda>_. ret this)"

text \<open>\<open>andThen(op)\<close>\<close>

definition andThen :: "nat \<Rightarrow> (jsval \<Rightarrow> (nat, 'w) comp) \<Rightarrow> (nat, 'w) comp" where
  "andThen this op = match this (\<lambda>value. op value) (\<lambda>_. ret this)"

text \<open>\<open>or(res)\<close>\<close>

definition or_result :: "nat \<Rightarrow> nat \<Rightarrow> (nat, 'w) comp" where
  "or_result this res = match this (\<lambda>_. ret this) (\<lambda>_. ret res)"

text \<open>\<open>orElse(op)\<close>\<close>

definition orElse :: "nat \<Rightarrow> (jsval \<Rightarrow> (nat, 'w) comp) \<Rightarrow> (nat, 'w) comp" where
  "orElse this op = match this (\<lambda>_. ret this) (\<lambda>error. op error)"

text \<open>\<open>unwrap()\<close>\<close>

definition unwrap :: "nat \<Rightarrow> (jsval, 'w) comp" where
  "unwrap this =
     match this (\<lambda>value. ret value)
       (\<lambda>error. throw (Panic ''called `Result.unwrap()` on an `Err`'' error))"

text \<open>\<open>unwrapOr(defaultValue)\<close>\<close>

definition unwrapOr :: "nat \<Rightarrow> jsval \<Rightarrow> (jsval, 'w) comp" where
  "unwrapOr this defaultValue = match this (\<lambda>value. ret value) (\<lambda>_. ret defaultValue)"

text \<open>\<open>unwrapOrElse(defaultValue)\<close>\<close>

definition unwrapOrElse :: "nat \<Rightarrow> (jsval, 'w) comp \<Rightarrow> (jsval, 'w) comp" where
  "unwrapOrElse this defaultValue = match this (\<lambda>value. ret value) (\<lambda>_. defaultValue)"

text \<open>\<open>orThrow()\<close>\<close>

definition orThrow :: "nat \<Rightarrow> (jsval, 'w) comp" where
  "orThrow this = match this (\<lambda>value. ret value) (\<lambda>error. throw error)"

text \<open>
  \<open>ControlFlow<Break, Continue>\<close>: an object with the fields \<open>isBreak\<close> and \<open>value\<close> (here
  \<open>cf_val\<close>).
\<close>

record ControlFlow =
  isBreak :: bool
  cf_val :: jsval

text \<open>\<open>branch()\<close>\<close>

definition branch :: "nat \<Rightarrow> (ControlFlow, 'w) comp" where
  "branch this =
     match this
       (\<lambda>value. ret \<lparr>isBreak = False, cf_val = value\<rparr>)
       (\<lambda>_. ret \<lparr>isBreak = True, cf_val = ResultRef this\<rparr>)"

section \<open>Asynchronous functions\<close>

text \<open>
  The body of an \<open>async\<close> function runs at the call up to its first \<open>await\<close>. It has then
  either come to its end (\<open>Done\<close>), or it waits for a promise and goes on with the value
  the promise is fulfilled with, in the state of that later moment (\<open>Await\<close>).
\<close>

datatype ('x, 'a, 'w) async =
    Done "'a outcome"
  | Await "('x, jsval) settlement" "'x \<Rightarrow> ('a, 'w) comp"

text \<open>
  How the promise returned by an \<open>async\<close> function settles, when the body is taken up
  again in the state \<open>s\<close>: a returned value fulfils it, a thrown value rejects it, a
  rejection of the awaited promise is thrown at the \<open>await\<close>, and a promise that never
  settles leaves it pending.
\<close>

fun complete :: "('x, 'a, 'w) async \<Rightarrow> 'w state \<Rightarrow> ('a, jsval) settlement \<times> 'w state" where
  "complete (Done (Returns a)) s = (Fulfilled a, s)"
| "complete (Done (Throws e)) s = (Rejected e, s)"
| "complete (Await (Fulfilled x) k) s =
     (case k x s of (Returns a, s') \<Rightarrow> (Fulfilled a, s') | (Throws e, s') \<Rightarrow> (Rejected e, s'))"
| "complete (Await (Rejected e) k) s = (Rejected e, s)"
| "complete (Await Pending k) s = (Pending, s)"

text \<open>
  \<open>async awaited()\<close>. Both reads of \<open>this.innerResult\<close> and the test
  \<open>instanceof Promise\<close> happen at the call; only the construction of the new instance
  follows the \<open>await\<close>.
\<close>

definition awaited :: "nat \<Rightarrow> 'w state \<Rightarrow> (jsval, nat, 'w) async \<times> 'w state" where
  "awaited this s =
     (case innerResult this s of
        (Throws e, s') \<Rightarrow> (Done (Throws e), s')
      | (Returns r, s') \<Rightarrow>
          if success r then
            if instanceof_Promise (val r) then (Await (await_settlement (val r)) Result_ok, s')
            else (case Result_ok (val r) s' of (out, s'') \<Rightarrow> (Done out, s''))
          else
            if instanceof_Promise (val r) then (Await (await_settlement (val r)) Result_err, s')
            else (case Result_err (val r) s' of (out, s'') \<Rightarrow> (Done out, s'')))"

section \<open>The CAPTCHA-verification wrapper\<close>

text \<open>\<open>class CfTurnstile\<close> with its one field.\<close>

record CfTurnstile =
  secretKey :: string

definition ENDPOINT :: string where
  "ENDPOINT = ''https://challenges.cloudflare.com/turnstile/v0/siteverify''"

text \<open>The request handed to the host: the address, the form fields in the order they were
  appended, and the method.\<close>

record Request =
  url :: string
  formData :: "(string \<times> string) list"
  http_method :: string

text \<open>An optional string parameter is truthy when it is given and not empty.\<close>

fun truthy_string :: "string option \<Rightarrow> bool" where
  "truthy_string None = False"
| "truthy_string (Some x) = (x \<noteq> [])"

text \<open>The string literal each error code stands for.\<close>

fun code_string :: "TurnstileAPIErrorCode \<Rightarrow> string" where
  "code_string missing_input_secret = ''missing-input-secret''"
| "code_string invalid_input_secret = ''invalid-input-secret''"
| "code_string missing_input_response = ''missing-input-response''"
| "code_string invalid_input_response = ''invalid-input-response''"
| "code_string bad_request = ''bad-request''"
| "code_string timeout_or_duplicate = ''timeout-or-duplicate''"
| "code_string internal_error = ''internal-error''"

text \<open>\<open>Array.prototype.join\<close> on an array of strings.\<close>

fun join :: "string \<Rightarrow> string list \<Rightarrow> string" where
  "join sep [] = []"
| "join sep [x] = x"
| "join sep (x # y # ys) = x @ sep @ join sep (y # ys)"

text \<open>\<open>new TurnstileError(codes)\<close>; the character 0x27 is the single quote.\<close>

definition new_TurnstileError :: "TurnstileAPIErrorCode list \<Rightarrow> jsval" where
  "new_TurnstileError codes =
     TurnstileError
       (''Cloudflare Turnstile returned error codes: '' @ [CHR 0x27]
          @ join ([CHR 0x27] @ '', '' @ [CHR 0x27]) (map code_string codes) @ [CHR 0x27])
       codes"

text \<open>\<open>response.success\<close>\<close>

fun response_success :: "TunstileAPIResponse \<Rightarrow> bool" where
  "response_success (TurnstileAPISuccessResponse ts h cs a d) = True"
| "response_success (TurnstileAPIErrorResponse cs) = False"

text \<open>
  \<open>async req(request)\<close> touches no \<open>Result\<close>, so it is given by the settlement of the
  promise it returns. The host's \<open>fetch\<close> and the \<open>json()\<close> of the host's response object
  are parameters; the body they deliver has the type the source casts it to.
\<close>

definition req ::
  "(Request \<Rightarrow> ('r, jsval) settlement) \<Rightarrow> ('r \<Rightarrow> (TunstileAPIResponse, jsval) settlement)
     \<Rightarrow> Request \<Rightarrow> (TunstileAPIResponse, jsval) settlement" where
  "req fetch json request =
     (case fetch request of
        Fulfilled response \<Rightarrow> json response
      | Rejected e \<Rightarrow> Rejected e
      | Pending \<Rightarrow> Pending)"

text \<open>
  \<open>async validate(token, ip?, idempotencyKey?)\<close>, in two parts. First the request it
  builds before the call of \<open>req\<close>: the form fields in the order of the \<open>append\<close> calls.
\<close>

definition validate_request ::
  "CfTurnstile \<Rightarrow> string \<Rightarrow> string option \<Rightarrow> string option \<Rightarrow> Request" where
  "validate_request this token ip idempotencyKey =
     \<lparr>url = ENDPOINT,
      formData =
        [(''secret'', secretKey this), (''response'', token)]
        @ (if truthy_string ip then [(''remoteip'', the ip)] else [])
        @ (if truthy_string idempotencyKey then [(''idempotency_key'', the idempotencyKey)]
           else []),
      http_method = ''POST''\<rparr>"

text \<open>Then \<open>await this.req(request)\<close> and the mapping of the response.\<close>

definition validate ::
  "(Request \<Rightarrow> ('r, jsval) settlement) \<Rightarrow> ('r \<Rightarrow> (TunstileAPIResponse, jsval) settlement)
     \<Rightarrow> CfTurnstile \<Rightarrow> string \<Rightarrow> string option \<Rightarrow> string option
     \<Rightarrow> 'w state \<Rightarrow> (TunstileAPIResponse, nat, 'w) async \<times> 'w state" where
  "validate fetch json this token ip idempotencyKey s =
     (Await (req fetch json (validate_request this token ip idempotencyKey))
        (\<lambda>response.
           if response_success response then Result_ok (Body response)
           else Result_err (new_TurnstileError (error_codes response))),
      s)"

section \<open>What it means that an instance is left as it is\<close>

text \<open>
  \<open>kept a s s'\<close>: reading the \<open>innerResult\<close> of the instance \<open>a\<close> in the state \<open>s'\<close> gives what
  it gives in \<open>s\<close>: the same tag and the same payload.
\<close>

definition kept :: "nat \<Rightarrow> 'w state \<Rightarrow> 'w state \<Rightarrow> bool" where
  "kept a s s' \<longleftrightarrow> fst (innerResult a s') = fst (innerResult a s)"

text \<open>
  \<open>leaves a f s\<close>: the callback \<open>f\<close>, called in the state \<open>s\<close> on any argument, does not
  assign the field \<open>innerResult\<close> of the instance \<open>a\<close> or a field of that object.
\<close>

definition leaves :: "nat \<Rightarrow> ('x \<Rightarrow> ('a, 'w) comp) \<Rightarrow> 'w state \<Rightarrow> bool" where
  "leaves a f s \<longleftrightarrow> (\<forall>x. kept a s (snd (f x s)))"

text \<open>
  The field \<open>innerResult\<close> is declared \<open>public\<close> and not \<open>readonly\<close>: code outside the class
  can assign it. \<open>assign_innerResult a inner\<close> is the callback
  \<open>(_) => { a.innerResult = inner }\<close>.
\<close>

definition assign_innerResult :: "nat \<Rightarrow> ResultInner \<Rightarrow> jsval \<Rightarrow> (jsval, 'w) comp" where
  "assign_innerResult a inner x s =
     (if a < length (heap s) then (Returns Undefined, s\<lparr>heap := (heap s)[a := inner]\<rparr>)
      else (Throws (TypeError ''Cannot set properties of undefined''), s))"

section \<open>Reading and constructing instances\<close>

lemma innerResult_valid:
  "this < length (heap s) \<Longrightarrow> innerResult this s = (Returns (heap s ! this), s)"
  by (simp add: innerResult_def)

lemma innerResult_Returns_iff:
  "innerResult this s = (Returns r, s') \<longleftrightarrow> this < length (heap s) \<and> r = heap s ! this \<and> s' = s"
  by (auto simp add: innerResult_def)

lemma Result_ok_innerResult:
  "Result_ok v t = (Returns r, s) \<Longrightarrow> innerResult r s = (Returns \<lparr>success = True, val = v\<rparr>, s)"
  by (auto simp add: Result_ok_def new_Result_def innerResult_def)

lemma Result_err_innerResult:
  "Result_err e t = (Returns r, s) \<Longrightarrow> innerResult r s = (Returns \<lparr>success = False, val = e\<rparr>, s)"
  by (auto simp add: Result_err_def new_Result_def innerResult_def)

text \<open>Every instance is in one of the two variants.\<close>

lemma innerResult_variants:
  "this < length (heap s) \<Longrightarrow>
     (\<exists>v. innerResult this s = (Returns \<lparr>success = True, val = v\<rparr>, s))
   \<or> (\<exists>e. innerResult this s = (Returns \<lparr>success = False, val = e\<rparr>, s))"
proof -
  assume valid: "this < length (heap s)"
  obtain b v where cell: "heap s ! this = \<lparr>success = b, val = v\<rparr>"
    by (cases "heap s ! this") simp
  show ?thesis
  proof (cases b)
    case True
    with valid cell show ?thesis by (simp add: innerResult_def)
  next
    case False
    with valid cell show ?thesis by (simp add: innerResult_def)
  qed
qed

lemma match_Ok:
  "innerResult this s = (Returns \<lparr>success = True, val = v\<rparr>, s) \<Longrightarrow> match this f g s = f v s"
  by (simp add: match_def bind_def)

lemma match_Err:
  "innerResult this s = (Returns \<lparr>success = False, val = e\<rparr>, s) \<Longrightarrow> match this f g s = g e s"
  by (simp add: match_def bind_def)

section \<open>match\<close>

text \<open>
  C1. For every instance \<open>this\<close> and handlers \<open>f\<close>, \<open>g\<close>, which may have any effect on
  the state and may throw: when \<open>this\<close> is the Ok variant with payload \<open>v\<close>, the call
  \<open>this.match(f, g)\<close> is the one call \<open>f(v)\<close> in the state of the call, with its result
  and its effect, and it is the same whatever the other handler is; when \<open>this\<close> is the
  Err variant with payload \<open>e\<close>, it is the one call \<open>g(e)\<close>, whatever \<open>f\<close> is. So exactly
  one handler is invoked, once, and the handler of the inactive variant never.
\<close>

theorem match_invokes_exactly_one_handler:
  "(innerResult this s = (Returns \<lparr>success = True, val = v\<rparr>, s) \<longrightarrow>
      match this f g s = f v s \<and> (\<forall>g'. match this f g' s = match this f g s))
   \<and> (innerResult this s = (Returns \<lparr>success = False, val = e\<rparr>, s) \<longrightarrow>
      match this f g s = g e s \<and> (\<forall>f'. match this f' g s = match this f g s))"
  by (simp add: match_Ok match_Err)

theorem match_invokes_exactly_one_handler_witness:
  "innerResult 0 \<lparr>heap = [\<lparr>success = True, val = Number 3\<rparr>], world = (0::nat)\<rparr>
     = (Returns \<lparr>success = True, val = Number 3\<rparr>,
        \<lparr>heap = [\<lparr>success = True, val = Number 3\<rparr>], world = 0\<rparr>)
   \<and> match 0 (\<lambda>x s. (Returns x, s\<lparr>world := world s + 1\<rparr>)) (\<lambda>x. throw (Str ''invoked''))
         \<lparr>heap = [\<lparr>success = True, val = Number 3\<rparr>], world = (0::nat)\<rparr>
     = (Returns (Number 3), \<lparr>heap = [\<lparr>success = True, val = Number 3\<rparr>], world = 1\<rparr>)
   \<and> innerResult 0 \<lparr>heap = [\<lparr>success = False, val = Str ''boom''\<rparr>], world = (0::nat)\<rparr>
     = (Returns \<lparr>success = False, val = Str ''boom''\<rparr>,
        \<lparr>heap = [\<lparr>success = False, val = Str ''boom''\<rparr>], world = 0\<rparr>)
   \<and> match 0 (\<lambda>x. throw (Str ''invoked'')) (\<lambda>x s. (Returns x, s\<lparr>world := world s + 1\<rparr>))
         \<lparr>heap = [\<lparr>success = False, val = Str ''boom''\<rparr>], world = (0::nat)\<rparr>
     = (Returns (Str ''boom''), \<lparr>heap = [\<lparr>success = False, val = Str ''boom''\<rparr>], world = 1\<rparr>)"
  using
    match_invokes_exactly_one_handler
      [where this = 0 and v = "Number 3"
         and s = "\<lparr>heap = [\<lparr>success = True, val = Number 3\<rparr>], world = (0::nat)\<rparr>"
         and f = "\<lambda>x s. (Returns x, s\<lparr>world := world s + 1\<rparr>)"
         and g = "\<lambda>x. throw (Str ''invoked'')"]
    match_invokes_exactly_one_handler
      [where this = 0 and e = "Str ''boom''"
         and s = "\<lparr>heap = [\<lparr>success = False, val = Str ''boom''\<rparr>], world = (0::nat)\<rparr>"
         and f = "\<lambda>x. throw (Str ''invoked'')"
         and g = "\<lambda>x s. (Returns x, s\<lparr>world := world s + 1\<rparr>)"]
  by (simp add: innerResult_def)

section \<open>Combinators\<close>

lemma map_result_Ok:
  "innerResult this s = (Returns \<lparr>success = True, val = v\<rparr>, s) \<Longrightarrow>
     map_result this f s = bind (f v) Result_ok s"
  by (simp add: map_result_def match_Ok)

lemma map_result_Err:
  "innerResult this s = (Returns \<lparr>success = False, val = e\<rparr>, s) \<Longrightarrow>
     map_result this f s = (Returns this, s)"
  by (simp add: map_result_def match_Err ret_def)

lemma andThen_Ok:
  "innerResult this s = (Returns \<lparr>success = True, val = v\<rparr>, s) \<Longrightarrow> andThen this h s = h v s"
  by (simp add: andThen_def match_Ok)

lemma andThen_Err:
  "innerResult this s = (Returns \<lparr>success = False, val = e\<rparr>, s) \<Longrightarrow>
     andThen this h s = (Returns this, s)"
  by (simp add: andThen_def match_Err ret_def)

lemma and_result_Ok:
  "innerResult this s = (Returns \<lparr>success = True, val = v\<rparr>, s) \<Longrightarrow>
     and_result this res s = (Returns res, s)"
  by (simp add: and_result_def match_Ok ret_def)

lemma and_result_Err:
  "innerResult this s = (Returns \<lparr>success = False, val = e\<rparr>, s) \<Longrightarrow>
     and_result this res s = (Returns this, s)"
  by (simp add: and_result_def match_Err ret_def)

text \<open>
  C2. The combinator laws. Let \<open>r\<close> be the instance \<open>Result.ok(v)\<close> has just returned, in the
  state \<open>s\<close> it left. Then \<open>r.map(f)\<close> is the call \<open>f(v)\<close> followed by \<open>Result.ok\<close> of its
  value; \<open>r.andThen(h)\<close> is the call \<open>h(v)\<close>; \<open>r.and(other)\<close> returns \<open>other\<close>. Let \<open>r\<close> be
  the instance \<open>Result.err(e)\<close> has just returned. Then \<open>r.map(f)\<close>, \<open>r.andThen(h)\<close> and
  \<open>r.and(other)\<close> return \<open>r\<close> itself and leave the state as it is, and \<open>r\<close> still is the
  Err variant with payload \<open>e\<close>.
\<close>

theorem combinator_laws:
  "(Result_ok v t = (Returns r, s) \<longrightarrow>
        map_result r f s = bind (f v) Result_ok s
      \<and> andThen r h s = h v s
      \<and> and_result r other s = (Returns other, s))
   \<and> (Result_err e t = (Returns r, s) \<longrightarrow>
        map_result r f s = (Returns r, s)
      \<and> andThen r h s = (Returns r, s)
      \<and> and_result r other s = (Returns r, s)
      \<and> innerResult r s = (Returns \<lparr>success = False, val = e\<rparr>, s))"
proof (intro conjI impI)
  assume "Result_ok v t = (Returns r, s)"
  then have ok: "innerResult r s = (Returns \<lparr>success = True, val = v\<rparr>, s)"
    by (rule Result_ok_innerResult)
  show "map_result r f s = bind (f v) Result_ok s" using ok by (rule map_result_Ok)
  show "andThen r h s = h v s" using ok by (rule andThen_Ok)
  show "and_result r other s = (Returns other, s)" using ok by (rule and_result_Ok)
next
  assume "Result_err e t = (Returns r, s)"
  then have er: "innerResult r s = (Returns \<lparr>success = False, val = e\<rparr>, s)"
    by (rule Result_err_innerResult)
  show "map_result r f s = (Returns r, s)" using er by (rule map_result_Err)
  show "andThen r h s = (Returns r, s)" using er by (rule andThen_Err)
  show "and_result r other s = (Returns r, s)" using er by (rule and_result_Err)
  show "innerResult r s = (Returns \<lparr>success = False, val = e\<rparr>, s)" by (rule er)
qed

theorem combinator_laws_witness:
  "Result_ok (Number 2) \<lparr>heap = [], world = ()\<rparr>
     = (Returns 0, \<lparr>heap = [\<lparr>success = True, val = Number 2\<rparr>], world = ()\<rparr>)
   \<and> map_result 0 (\<lambda>x. ret (Panic ''mapped'' x))
         \<lparr>heap = [\<lparr>success = True, val = Number 2\<rparr>], world = ()\<rparr>
     = (Returns 1, \<lparr>heap = [\<lparr>success = True, val = Number 2\<rparr>,
                              \<lparr>success = True, val = Panic ''mapped'' (Number 2)\<rparr>],
                      world = ()\<rparr>)
   \<and> andThen 0 Result_err \<lparr>heap = [\<lparr>success = True, val = Number 2\<rparr>], world = ()\<rparr>
     = (Returns 1, \<lparr>heap = [\<lparr>success = True, val = Number 2\<rparr>,
                              \<lparr>success = False, val = Number 2\<rparr>],
                      world = ()\<rparr>)
   \<and> and_result 0 7 \<lparr>heap = [\<lparr>success = True, val = Number 2\<rparr>], world = ()\<rparr>
     = (Returns 7, \<lparr>heap = [\<lparr>success = True, val = Number 2\<rparr>], world = ()\<rparr>)
   \<and> Result_err (Str ''late'') \<lparr>heap = [], world = ()\<rparr>
     = (Returns 0, \<lparr>heap = [\<lparr>success = False, val = Str ''late''\<rparr>], world = ()\<rparr>)
   \<and> map_result 0 (\<lambda>x. ret (Panic ''mapped'' x))
         \<lparr>heap = [\<lparr>success = False, val = Str ''late''\<rparr>], world = ()\<rparr>
     = (Returns 0, \<lparr>heap = [\<lparr>success = False, val = Str ''late''\<rparr>], world = ()\<rparr>)
   \<and> andThen 0 Result_err \<lparr>heap = [\<lparr>success = False, val = Str ''late''\<rparr>], world = ()\<rparr>
     = (Returns 0, \<lparr>heap = [\<lparr>success = False, val = Str ''late''\<rparr>], world = ()\<rparr>)
   \<and> and_result 0 7 \<lparr>heap = [\<lparr>success = False, val = Str ''late''\<rparr>], world = ()\<rparr>
     = (Returns 0, \<lparr>heap = [\<lparr>success = False, val = Str ''late''\<rparr>], world = ()\<rparr>)"
  using
    combinator_laws
      [where v = "Number 2" and t = "\<lparr>heap = [], world = ()\<rparr>" and r = 0
         and s = "\<lparr>heap = [\<lparr>success = True, val = Number 2\<rparr>], world = ()\<rparr>"
         and f = "\<lambda>x. ret (Panic ''mapped'' x)" and h = Result_err and other = 7]
    combinator_laws
      [where e = "Str ''late''" and t = "\<lparr>heap = [], world = ()\<rparr>" and r = 0
         and s = "\<lparr>heap = [\<lparr>success = False, val = Str ''late''\<rparr>], world = ()\<rparr>"
         and f = "\<lambda>x. ret (Panic ''mapped'' x)" and h = Result_err and other = 7]
  by (simp add: Result_ok_def Result_err_def new_Result_def bind_def ret_def)

section \<open>Extraction\<close>

lemma Panic_differs_from_cause: "Panic m e \<noteq> e"
proof
  assume "Panic m e = e"
  then have "size (Panic m e) = size e" by simp
  then show False by simp
qed

lemma unwrap_Ok:
  "innerResult this s = (Returns \<lparr>success = True, val = v\<rparr>, s) \<Longrightarrow>
     unwrap this s = (Returns v, s)"
  by (simp add: unwrap_def match_Ok ret_def)

lemma unwrap_Err:
  "innerResult this s = (Returns \<lparr>success = False, val = e\<rparr>, s) \<Longrightarrow>
     unwrap this s = (Throws (Panic ''called `Result.unwrap()` on an `Err`'' e), s)"
  by (simp add: unwrap_def match_Err throw_def)

text \<open>
  C3. For the instance \<open>r\<close> that \<open>Result.ok(v)\<close> returned, \<open>r.unwrap()\<close> returns \<open>v\<close>. For the
  instance \<open>r\<close> that \<open>Result.err(e)\<close> returned, \<open>r.unwrap()\<close> throws an instance of \<open>Panic\<close>
  whose cause is \<open>e\<close>; what is thrown is not the payload \<open>e\<close> itself.
\<close>

theorem unwrap_returns_or_panics:
  "(Result_ok v t = (Returns r, s) \<longrightarrow> unwrap r s = (Returns v, s))
   \<and> (Result_err e t = (Returns r, s) \<longrightarrow>
        unwrap r s = (Throws (Panic ''called `Result.unwrap()` on an `Err`'' e), s)
      \<and> Panic ''called `Result.unwrap()` on an `Err`'' e \<noteq> e)"
  by (simp add: Result_ok_innerResult Result_err_innerResult unwrap_Ok unwrap_Err
        Panic_differs_from_cause)

theorem unwrap_returns_or_panics_witness:
  "Result_ok (Number 2) \<lparr>heap = [], world = ()\<rparr>
     = (Returns 0, \<lparr>heap = [\<lparr>success = True, val = Number 2\<rparr>], world = ()\<rparr>)
   \<and> unwrap 0 \<lparr>heap = [\<lparr>success = True, val = Number 2\<rparr>], world = ()\<rparr>
     = (Returns (Number 2), \<lparr>heap = [\<lparr>success = True, val = Number 2\<rparr>], world = ()\<rparr>)
   \<and> Result_err (Str ''x'') \<lparr>heap = [], world = ()\<rparr>
     = (Returns 0, \<lparr>heap = [\<lparr>success = False, val = Str ''x''\<rparr>], world = ()\<rparr>)
   \<and> unwrap 0 \<lparr>heap = [\<lparr>success = False, val = Str ''x''\<rparr>], world = ()\<rparr>
     = (Throws (Panic ''called `Result.unwrap()` on an `Err`'' (Str ''x'')),
        \<lparr>heap = [\<lparr>success = False, val = Str ''x''\<rparr>], world = ()\<rparr>)"
  using
    unwrap_returns_or_panics
      [where v = "Number 2" and t = "\<lparr>heap = [], world = ()\<rparr>" and r = 0
         and s = "\<lparr>heap = [\<lparr>success = True, val = Number 2\<rparr>], world = ()\<rparr>"]
    unwrap_returns_or_panics
      [where e = "Str ''x''" and t = "\<lparr>heap = [], world = ()\<rparr>" and r = 0
         and s = "\<lparr>heap = [\<lparr>success = False, val = Str ''x''\<rparr>], world = ()\<rparr>"]
  by (simp add: Result_ok_def Result_err_def new_Result_def)

lemma orThrow_Ok:
  "innerResult this s = (Returns \<lparr>success = True, val = v\<rparr>, s) \<Longrightarrow>
     orThrow this s = (Returns v, s)"
  by (simp add: orThrow_def match_Ok ret_def)

lemma orThrow_Err:
  "innerResult this s = (Returns \<lparr>success = False, val = e\<rparr>, s) \<Longrightarrow>
     orThrow this s = (Throws e, s)"
  by (simp add: orThrow_def match_Err throw_def)

text \<open>
  C7. For the instance \<open>r\<close> that \<open>Result.ok(v)\<close> returned, \<open>r.orThrow()\<close> returns \<open>v\<close>. For the
  instance \<open>r\<close> that \<open>Result.err(e)\<close> returned, \<open>r.orThrow()\<close> throws the payload \<open>e\<close> itself,
  in no envelope.
\<close>

theorem orThrow_returns_or_throws_payload:
  "(Result_ok v t = (Returns r, s) \<longrightarrow> orThrow r s = (Returns v, s))
   \<and> (Result_err e t = (Returns r, s) \<longrightarrow> orThrow r s = (Throws e, s))"
  by (simp add: Result_ok_innerResult Result_err_innerResult orThrow_Ok orThrow_Err)

theorem orThrow_returns_or_throws_payload_witness:
  "Result_ok (Number 2) \<lparr>heap = [], world = ()\<rparr>
     = (Returns 0, \<lparr>heap = [\<lparr>success = True, val = Number 2\<rparr>], world = ()\<rparr>)
   \<and> orThrow 0 \<lparr>heap = [\<lparr>success = True, val = Number 2\<rparr>], world = ()\<rparr>
     = (Returns (Number 2), \<lparr>heap = [\<lparr>success = True, val = Number 2\<rparr>], world = ()\<rparr>)
   \<and> Result_err (Str ''x'') \<lparr>heap = [], world = ()\<rparr>
     = (Returns 0, \<lparr>heap = [\<lparr>success = False, val = Str ''x''\<rparr>], world = ()\<rparr>)
   \<and> orThrow 0 \<lparr>heap = [\<lparr>success = False, val = Str ''x''\<rparr>], world = ()\<rparr>
     = (Throws (Str ''x''), \<lparr>heap = [\<lparr>success = False, val = Str ''x''\<rparr>], world = ()\<rparr>)"
  using
    orThrow_returns_or_throws_payload
      [where v = "Number 2" and t = "\<lparr>heap = [], world = ()\<rparr>" and r = 0
         and s = "\<lparr>heap = [\<lparr>success = True, val = Number 2\<rparr>], world = ()\<rparr>"]
    orThrow_returns_or_throws_payload
      [where e = "Str ''x''" and t = "\<lparr>heap = [], world = ()\<rparr>" and r = 0
         and s = "\<lparr>heap = [\<lparr>success = False, val = Str ''x''\<rparr>], world = ()\<rparr>"]
  by (simp add: Result_ok_def Result_err_def new_Result_def)

section \<open>Early return\<close>

lemma branch_Ok:
  "innerResult this s = (Returns \<lparr>success = True, val = v\<rparr>, s) \<Longrightarrow>
     branch this s = (Returns \<lparr>isBreak = False, cf_val = v\<rparr>, s)"
  by (simp add: branch_def match_Ok ret_def)

lemma branch_Err:
  "innerResult this s = (Returns \<lparr>success = False, val = e\<rparr>, s) \<Longrightarrow>
     branch this s = (Returns \<lparr>isBreak = True, cf_val = ResultRef this\<rparr>, s)"
  by (simp add: branch_def match_Err ret_def)

lemma branch_returns:
  assumes "this < length (heap s)"
  shows "\<exists>cf. branch this s = (Returns cf, s)"
proof -
  from assms innerResult_variants [of this s]
  consider v where "innerResult this s = (Returns \<lparr>success = True, val = v\<rparr>, s)"
    | e where "innerResult this s = (Returns \<lparr>success = False, val = e\<rparr>, s)"
    by blast
  then show ?thesis
  proof cases
    case 1
    then show ?thesis by (simp add: branch_Ok)
  next
    case 2
    then show ?thesis by (simp add: branch_Err)
  qed
qed

text \<open>
  C4. For the instance \<open>r\<close> that \<open>Result.ok(v)\<close> returned, \<open>r.branch()\<close> returns
  \<open>{isBreak: false, value: v}\<close>. For the instance \<open>r\<close> that \<open>Result.err(e)\<close> returned,
  \<open>r.branch()\<close> returns \<open>{isBreak: true, value: r}\<close>: the receiver itself, which is the Err
  variant with payload \<open>e\<close>. On every instance \<open>branch\<close> returns a value, throws nothing
  and leaves the state as it is.
\<close>

theorem branch_continue_or_break:
  "(Result_ok v t = (Returns r, s) \<longrightarrow>
        branch r s = (Returns \<lparr>isBreak = False, cf_val = v\<rparr>, s))
   \<and> (Result_err e t = (Returns r, s) \<longrightarrow>
        branch r s = (Returns \<lparr>isBreak = True, cf_val = ResultRef r\<rparr>, s)
      \<and> innerResult r s = (Returns \<lparr>success = False, val = e\<rparr>, s))
   \<and> (this < length (heap u) \<longrightarrow> (\<exists>cf. branch this u = (Returns cf, u)))"
  by (simp add: Result_ok_innerResult Result_err_innerResult branch_Ok branch_Err branch_returns)

theorem branch_continue_or_break_witness:
  "Result_ok (Number 2) \<lparr>heap = [], world = ()\<rparr>
     = (Returns 0, \<lparr>heap = [\<lparr>success = True, val = Number 2\<rparr>], world = ()\<rparr>)
   \<and> branch 0 \<lparr>heap = [\<lparr>success = True, val = Number 2\<rparr>], world = ()\<rparr>
     = (Returns \<lparr>isBreak = False, cf_val = Number 2\<rparr>,
        \<lparr>heap = [\<lparr>success = True, val = Number 2\<rparr>], world = ()\<rparr>)
   \<and> Result_err (Str ''x'') \<lparr>heap = [], world = ()\<rparr>
     = (Returns 0, \<lparr>heap = [\<lparr>success = False, val = Str ''x''\<rparr>], world = ()\<rparr>)
   \<and> branch 0 \<lparr>heap = [\<lparr>success = False, val = Str ''x''\<rparr>], world = ()\<rparr>
     = (Returns \<lparr>isBreak = True, cf_val = ResultRef 0\<rparr>,
        \<lparr>heap = [\<lparr>success = False, val = Str ''x''\<rparr>], world = ()\<rparr>)
   \<and> (0::nat) < length (heap \<lparr>heap = [\<lparr>success = False, val = Str ''x''\<rparr>], world = ()\<rparr>)
   \<and> (\<exists>cf. branch 0 \<lparr>heap = [\<lparr>success = False, val = Str ''x''\<rparr>], world = ()\<rparr>
          = (Returns cf, \<lparr>heap = [\<lparr>success = False, val = Str ''x''\<rparr>], world = ()\<rparr>))"
  using
    branch_continue_or_break
      [where v = "Number 2" and t = "\<lparr>heap = [], world = ()\<rparr>" and r = 0
         and s = "\<lparr>heap = [\<lparr>success = True, val = Number 2\<rparr>], world = ()\<rparr>"
         and this = 0
         and u = "\<lparr>heap = [\<lparr>success = True, val = Number 2\<rparr>], world = ()\<rparr>"]
    branch_continue_or_break
      [where e = "Str ''x''" and t = "\<lparr>heap = [], world = ()\<rparr>" and r = 0
         and s = "\<lparr>heap = [\<lparr>success = False, val = Str ''x''\<rparr>], world = ()\<rparr>"
         and this = 0
         and u = "\<lparr>heap = [\<lparr>success = False, val = Str ''x''\<rparr>], world = ()\<rparr>"]
  by (simp add: Result_ok_def Result_err_def new_Result_def)

section \<open>Projections\<close>

lemma ok_Ok:
  "innerResult this s = (Returns \<lparr>success = True, val = v\<rparr>, s) \<Longrightarrow>
     ok this flag s = (Returns v, s)"
  by (simp add: ok_def bind_def ret_def)

lemma ok_Err:
  "innerResult this s = (Returns \<lparr>success = False, val = e\<rparr>, s) \<Longrightarrow>
     ok this flag s = (Returns (if truthy_flag flag then Result_none else Null), s)"
  by (simp add: ok_def bind_def ret_def)

lemma err_Err:
  "innerResult this s = (Returns \<lparr>success = False, val = e\<rparr>, s) \<Longrightarrow>
     err this flag s = (Returns e, s)"
  by (simp add: err_def bind_def ret_def)

lemma err_Ok:
  "innerResult this s = (Returns \<lparr>success = True, val = v\<rparr>, s) \<Longrightarrow>
     err this flag s = (Returns (if truthy_flag flag then Result_none else Null), s)"
  by (simp add: err_def bind_def ret_def)

text \<open>
  C6. For the instance \<open>r\<close> that \<open>Result.ok(v)\<close> returned: \<open>r.ok()\<close> returns \<open>v\<close>, \<open>r.err()\<close>
  returns \<open>null\<close>, \<open>r.err(true)\<close> returns the symbol \<open>Result.none\<close>, and \<open>r.ok(true)\<close> returns
  \<open>v\<close>. For the instance \<open>r\<close> that \<open>Result.err(e)\<close> returned: \<open>r.err()\<close> returns \<open>e\<close>,
  \<open>r.ok()\<close> returns \<open>null\<close>, \<open>r.ok(true)\<close> returns \<open>Result.none\<close>, and \<open>r.err(true)\<close> returns
  \<open>e\<close>. The sentinel \<open>Result.none\<close> is not \<open>null\<close>, not \<open>undefined\<close>, no boolean, no number,
  no string, no instance of \<open>Result\<close>, no promise, no thenable, no error object, no
  response body, and no symbol but itself: whatever value of these a payload is, the
  sentinel differs from it, so in sentinel mode the result for an absent payload differs
  from the result for that payload.
\<close>

theorem projections_and_sentinel:
  "(Result_ok v t = (Returns r, s) \<longrightarrow>
        ok r None s = (Returns v, s)
      \<and> err r None s = (Returns Null, s)
      \<and> err r (Some True) s = (Returns Result_none, s)
      \<and> ok r (Some True) s = (Returns v, s))
   \<and> (Result_err e t = (Returns r, s) \<longrightarrow>
        err r None s = (Returns e, s)
      \<and> ok r None s = (Returns Null, s)
      \<and> ok r (Some True) s = (Returns Result_none, s)
      \<and> err r (Some True) s = (Returns e, s))
   \<and> Result_none \<noteq> Null
   \<and> Result_none \<noteq> Undefined
   \<and> (\<forall>b. Result_none \<noteq> Boolean b)
   \<and> (\<forall>i. Result_none \<noteq> Number i)
   \<and> (\<forall>x. Result_none \<noteq> Str x)
   \<and> (\<forall>a. Result_none \<noteq> ResultRef a)
   \<and> (\<forall>p. Result_none \<noteq> Promise p)
   \<and> (\<forall>p. Result_none \<noteq> Thenable p)
   \<and> (\<forall>m c. Result_none \<noteq> Panic m c)
   \<and> (\<forall>m cs. Result_none \<noteq> TurnstileError m cs)
   \<and> (\<forall>m. Result_none \<noteq> TypeError m)
   \<and> (\<forall>b. Result_none \<noteq> Body b)
   \<and> (\<forall>n. (Result_none = Symbol n) = (n = 0))"
proof -
  have on_Ok:
    "ok r None s = (Returns v, s) \<and> err r None s = (Returns Null, s)
     \<and> err r (Some True) s = (Returns Result_none, s) \<and> ok r (Some True) s = (Returns v, s)"
    if "Result_ok v t = (Returns r, s)"
  proof -
    from that have cell: "innerResult r s = (Returns \<lparr>success = True, val = v\<rparr>, s)"
      by (rule Result_ok_innerResult)
    have "ok r None s = (Returns v, s)" using cell by (rule ok_Ok)
    moreover have "err r None s = (Returns Null, s)" using cell by (simp add: err_Ok)
    moreover have "err r (Some True) s = (Returns Result_none, s)" using cell by (simp add: err_Ok)
    moreover have "ok r (Some True) s = (Returns v, s)" using cell by (rule ok_Ok)
    ultimately show ?thesis by simp
  qed
  have on_Err:
    "err r None s = (Returns e, s) \<and> ok r None s = (Returns Null, s)
     \<and> ok r (Some True) s = (Returns Result_none, s) \<and> err r (Some True) s = (Returns e, s)"
    if "Result_err e t = (Returns r, s)"
  proof -
    from that have cell: "innerResult r s = (Returns \<lparr>success = False, val = e\<rparr>, s)"
      by (rule Result_err_innerResult)
    have "err r None s = (Returns e, s)" using cell by (rule err_Err)
    moreover have "ok r None s = (Returns Null, s)" using cell by (simp add: ok_Err)
    moreover have "ok r (Some True) s = (Returns Result_none, s)" using cell by (simp add: ok_Err)
    moreover have "err r (Some True) s = (Returns e, s)" using cell by (rule err_Err)
    ultimately show ?thesis by simp
  qed
  have apart:
    "Result_none \<noteq> Null \<and> Result_none \<noteq> Undefined
     \<and> (\<forall>b. Result_none \<noteq> Boolean b) \<and> (\<forall>i. Result_none \<noteq> Number i)
     \<and> (\<forall>x. Result_none \<noteq> Str x) \<and> (\<forall>a. Result_none \<noteq> ResultRef a)
     \<and> (\<forall>p. Result_none \<noteq> Promise p) \<and> (\<forall>p. Result_none \<noteq> Thenable p)
     \<and> (\<forall>m c. Result_none \<noteq> Panic m c) \<and> (\<forall>m cs. Result_none \<noteq> TurnstileError m cs)
     \<and> (\<forall>m. Result_none \<noteq> TypeError m) \<and> (\<forall>b. Result_none \<noteq> Body b)
     \<and> (\<forall>n. (Result_none = Symbol n) = (n = 0))"
    by (auto simp add: Result_none_def)
  from on_Ok on_Err apart show ?thesis by blast
qed

theorem projections_and_sentinel_witness:
  "Result_ok Undefined \<lparr>heap = [], world = ()\<rparr>
     = (Returns 0, \<lparr>heap = [\<lparr>success = True, val = Undefined\<rparr>], world = ()\<rparr>)
   \<and> ok 0 None \<lparr>heap = [\<lparr>success = True, val = Undefined\<rparr>], world = ()\<rparr>
     = (Returns Undefined, \<lparr>heap = [\<lparr>success = True, val = Undefined\<rparr>], world = ()\<rparr>)
   \<and> err 0 None \<lparr>heap = [\<lparr>success = True, val = Undefined\<rparr>], world = ()\<rparr>
     = (Returns Null, \<lparr>heap = [\<lparr>success = True, val = Undefined\<rparr>], world = ()\<rparr>)
   \<and> ok 0 (Some True) \<lparr>heap = [\<lparr>success = True, val = Undefined\<rparr>], world = ()\<rparr>
     = (Returns Undefined, \<lparr>heap = [\<lparr>success = True, val = Undefined\<rparr>], world = ()\<rparr>)
   \<and> err 0 (Some True) \<lparr>heap = [\<lparr>success = True, val = Undefined\<rparr>], world = ()\<rparr>
     = (Returns (Symbol 0), \<lparr>heap = [\<lparr>success = True, val = Undefined\<rparr>], world = ()\<rparr>)
   \<and> Result_none \<noteq> Undefined
   \<and> Result_err (Str ''none'') \<lparr>heap = [], world = ()\<rparr>
     = (Returns 0, \<lparr>heap = [\<lparr>success = False, val = Str ''none''\<rparr>], world = ()\<rparr>)
   \<and> err 0 None \<lparr>heap = [\<lparr>success = False, val = Str ''none''\<rparr>], world = ()\<rparr>
     = (Returns (Str ''none''), \<lparr>heap = [\<lparr>success = False, val = Str ''none''\<rparr>], world = ()\<rparr>)
   \<and> ok 0 None \<lparr>heap = [\<lparr>success = False, val = Str ''none''\<rparr>], world = ()\<rparr>
     = (Returns Null, \<lparr>heap = [\<lparr>success = False, val = Str ''none''\<rparr>], world = ()\<rparr>)
   \<and> ok 0 (Some True) \<lparr>heap = [\<lparr>success = False, val = Str ''none''\<rparr>], world = ()\<rparr>
     = (Returns (Symbol 0), \<lparr>heap = [\<lparr>success = False, val = Str ''none''\<rparr>], world = ()\<rparr>)
   \<and> err 0 (Some True) \<lparr>heap = [\<lparr>success = False, val = Str ''none''\<rparr>], world = ()\<rparr>
     = (Returns (Str ''none''), \<lparr>heap = [\<lparr>success = False, val = Str ''none''\<rparr>], world = ()\<rparr>)
   \<and> Result_none \<noteq> Str ''none''
   \<and> Result_none \<noteq> Null
   \<and> Result_none \<noteq> Symbol 1"
  using
    projections_and_sentinel
      [where v = Undefined and t = "\<lparr>heap = [], world = ()\<rparr>" and r = 0
         and s = "\<lparr>heap = [\<lparr>success = True, val = Undefined\<rparr>], world = ()\<rparr>"]
    projections_and_sentinel
      [where e = "Str ''none''" and t = "\<lparr>heap = [], world = ()\<rparr>" and r = 0
         and s = "\<lparr>heap = [\<lparr>success = False, val = Str ''none''\<rparr>], world = ()\<rparr>"]
  by (simp add: Result_ok_def Result_err_def new_Result_def Result_none_def)

text \<open>
  \<open>Result.none\<close> is a public static of the class. Handed in as the payload of an Ok
  instance it comes back from \<open>ok(true)\<close>, as it does from every Err instance: the symbol
  itself is the one value the sentinel is not told from.
\<close>

lemma sentinel_as_payload:
  "Result_ok Result_none t = (Returns r, s) \<Longrightarrow> ok r (Some True) s = (Returns Result_none, s)"
  by (simp add: Result_ok_innerResult ok_Ok)

section \<open>awaited\<close>

lemma awaited_Promise:
  "innerResult this s = (Returns \<lparr>success = b, val = Promise q\<rparr>, s) \<Longrightarrow>
     awaited this s = (Await q (if b then Result_ok else Result_err), s)"
  by (simp add: awaited_def)

lemma awaited_not_Promise:
  assumes "innerResult this s = (Returns \<lparr>success = b, val = p\<rparr>, s)"
      and "\<not> instanceof_Promise p"
  shows "awaited this s
           = (Done (Returns (length (heap s))), s\<lparr>heap := heap s @ [\<lparr>success = b, val = p\<rparr>]\<rparr>)"
  using assms
  by (simp add: awaited_def Result_ok_def Result_err_def new_Result_def)

lemma complete_new_Result:
  "complete (Await (Fulfilled x) (if b then Result_ok else Result_err)) u
     = (Fulfilled (length (heap u)), u\<lparr>heap := heap u @ [\<lparr>success = b, val = x\<rparr>]\<rparr>)"
  by (simp add: Result_ok_def Result_err_def new_Result_def)

text \<open>
  C5. Let \<open>this\<close> be an instance with tag \<open>b\<close> and payload \<open>p\<close> at the call of \<open>awaited()\<close>,
  and let \<open>u\<close> be the state in which the returned promise settles.
  \<^item> When \<open>p\<close> is a \<open>Promise\<close> that is fulfilled with \<open>x\<close>, the call changes nothing, and the
    returned promise is fulfilled with a new instance with tag \<open>b\<close> and payload \<open>x\<close>.
  \<^item> When \<open>p\<close> is no \<open>Promise\<close>, the call constructs a new instance with tag \<open>b\<close> and
    payload \<open>p\<close>, and the returned promise is fulfilled with it.
  \<^item> When \<open>p\<close> is a \<open>Promise\<close> that is rejected with \<open>x\<close>, no instance is constructed and
    the returned promise is rejected with \<open>x\<close>.
\<close>

theorem awaited_resolves_payload_keeps_variant:
  "innerResult this s = (Returns \<lparr>success = b, val = p\<rparr>, s) \<longrightarrow>
     (p = Promise (Fulfilled x) \<longrightarrow>
        snd (awaited this s) = s
      \<and> complete (fst (awaited this s)) u
          = (Fulfilled (length (heap u)), u\<lparr>heap := heap u @ [\<lparr>success = b, val = x\<rparr>]\<rparr>))
   \<and> (\<not> instanceof_Promise p \<longrightarrow>
        snd (awaited this s) = s\<lparr>heap := heap s @ [\<lparr>success = b, val = p\<rparr>]\<rparr>
      \<and> complete (fst (awaited this s)) u = (Fulfilled (length (heap s)), u))
   \<and> (p = Promise (Rejected x) \<longrightarrow>
        snd (awaited this s) = s
      \<and> complete (fst (awaited this s)) u = (Rejected x, u))"
proof (intro impI conjI)
  assume cell: "innerResult this s = (Returns \<lparr>success = b, val = p\<rparr>, s)"
  {
    assume "p = Promise (Fulfilled x)"
    with cell have call: "awaited this s = (Await (Fulfilled x) (if b then Result_ok else Result_err), s)"
      by (simp add: awaited_Promise)
    show "snd (awaited this s) = s" by (simp add: call)
    show "complete (fst (awaited this s)) u
            = (Fulfilled (length (heap u)), u\<lparr>heap := heap u @ [\<lparr>success = b, val = x\<rparr>]\<rparr>)"
      by (simp only: call fst_conv complete_new_Result)
  }
  {
    assume "\<not> instanceof_Promise p"
    with cell have call: "awaited this s
        = (Done (Returns (length (heap s))), s\<lparr>heap := heap s @ [\<lparr>success = b, val = p\<rparr>]\<rparr>)"
      by (rule awaited_not_Promise)
    show "snd (awaited this s) = s\<lparr>heap := heap s @ [\<lparr>success = b, val = p\<rparr>]\<rparr>"
      by (simp add: call)
    show "complete (fst (awaited this s)) u = (Fulfilled (length (heap s)), u)"
      by (simp add: call)
  }
  {
    assume "p = Promise (Rejected x)"
    with cell have call: "awaited this s = (Await (Rejected x) (if b then Result_ok else Result_err), s)"
      by (simp add: awaited_Promise)
    show "snd (awaited this s) = s" by (simp add: call)
    show "complete (fst (awaited this s)) u = (Rejected x, u)" by (simp add: call)
  }
qed

theorem awaited_resolves_payload_keeps_variant_witness:
  "innerResult 0 \<lparr>heap = [\<lparr>success = False, val = Promise (Fulfilled (Str ''e''))\<rparr>], world = ()\<rparr>
     = (Returns \<lparr>success = False, val = Promise (Fulfilled (Str ''e''))\<rparr>,
        \<lparr>heap = [\<lparr>success = False, val = Promise (Fulfilled (Str ''e''))\<rparr>], world = ()\<rparr>)
   \<and> complete
        (fst (awaited 0
           \<lparr>heap = [\<lparr>success = False, val = Promise (Fulfilled (Str ''e''))\<rparr>], world = ()\<rparr>))
        \<lparr>heap = [\<lparr>success = False, val = Promise (Fulfilled (Str ''e''))\<rparr>], world = ()\<rparr>
     = (Fulfilled 1,
        \<lparr>heap = [\<lparr>success = False, val = Promise (Fulfilled (Str ''e''))\<rparr>,
                 \<lparr>success = False, val = Str ''e''\<rparr>],
         world = ()\<rparr>)
   \<and> innerResult 0 \<lparr>heap = [\<lparr>success = True, val = Number 5\<rparr>], world = ()\<rparr>
     = (Returns \<lparr>success = True, val = Number 5\<rparr>,
        \<lparr>heap = [\<lparr>success = True, val = Number 5\<rparr>], world = ()\<rparr>)
   \<and> \<not> instanceof_Promise (Number 5)
   \<and> awaited 0 \<lparr>heap = [\<lparr>success = True, val = Number 5\<rparr>], world = ()\<rparr>
     = (Done (Returns 1),
        \<lparr>heap = [\<lparr>success = True, val = Number 5\<rparr>, \<lparr>success = True, val = Number 5\<rparr>],
         world = ()\<rparr>)
   \<and> innerResult 0 \<lparr>heap = [\<lparr>success = True, val = Promise (Rejected (Str ''no''))\<rparr>], world = ()\<rparr>
     = (Returns \<lparr>success = True, val = Promise (Rejected (Str ''no''))\<rparr>,
        \<lparr>heap = [\<lparr>success = True, val = Promise (Rejected (Str ''no''))\<rparr>], world = ()\<rparr>)
   \<and> complete
        (fst (awaited 0
           \<lparr>heap = [\<lparr>success = True, val = Promise (Rejected (Str ''no''))\<rparr>], world = ()\<rparr>))
        \<lparr>heap = [\<lparr>success = True, val = Promise (Rejected (Str ''no''))\<rparr>], world = ()\<rparr>
     = (Rejected (Str ''no''),
        \<lparr>heap = [\<lparr>success = True, val = Promise (Rejected (Str ''no''))\<rparr>], world = ()\<rparr>)"
  using
    awaited_resolves_payload_keeps_variant
      [where this = 0 and b = False and p = "Promise (Fulfilled (Str ''e''))" and x = "Str ''e''"
         and s = "\<lparr>heap = [\<lparr>success = False, val = Promise (Fulfilled (Str ''e''))\<rparr>], world = ()\<rparr>"
         and u = "\<lparr>heap = [\<lparr>success = False, val = Promise (Fulfilled (Str ''e''))\<rparr>], world = ()\<rparr>"]
    awaited_resolves_payload_keeps_variant
      [where this = 0 and b = True and p = "Number 5" and x = Null
         and s = "\<lparr>heap = [\<lparr>success = True, val = Number 5\<rparr>], world = ()\<rparr>"
         and u = "\<lparr>heap = [\<lparr>success = True, val = Number 5\<rparr>], world = ()\<rparr>"]
    awaited_resolves_payload_keeps_variant
      [where this = 0 and b = True and p = "Promise (Rejected (Str ''no''))" and x = "Str ''no''"
         and s = "\<lparr>heap = [\<lparr>success = True, val = Promise (Rejected (Str ''no''))\<rparr>], world = ()\<rparr>"
         and u = "\<lparr>heap = [\<lparr>success = True, val = Promise (Rejected (Str ''no''))\<rparr>], world = ()\<rparr>"]
  by (simp add: innerResult_def awaited_def Result_ok_def Result_err_def new_Result_def)

text \<open>When the payload is a \<open>Promise\<close> that never settles, the returned promise never
  settles either.\<close>

lemma awaited_pending_payload:
  "innerResult this s = (Returns \<lparr>success = b, val = Promise Pending\<rparr>, s) \<Longrightarrow>
     complete (fst (awaited this s)) u = (Pending, u)"
  by (simp add: awaited_Promise)

text \<open>
  C10. Let \<open>this\<close> be an instance with tag \<open>b\<close> and payload \<open>p\<close>. The body of \<open>awaited()\<close>
  waits exactly when \<open>p\<close> is an instance of \<open>Promise\<close>. When it is not, and so for every
  thenable, the call runs to its end at once: it constructs a new instance with tag \<open>b\<close>
  and the payload \<open>p\<close> itself, and the returned promise is fulfilled with that instance.
\<close>

theorem awaited_awaits_only_Promise_instances:
  "innerResult this s = (Returns \<lparr>success = b, val = p\<rparr>, s) \<longrightarrow>
     (instanceof_Promise p \<longleftrightarrow> (\<exists>q k. fst (awaited this s) = Await q k))
   \<and> (\<not> instanceof_Promise p \<longrightarrow>
        awaited this s
          = (Done (Returns (length (heap s))), s\<lparr>heap := heap s @ [\<lparr>success = b, val = p\<rparr>]\<rparr>)
      \<and> complete (fst (awaited this s)) u = (Fulfilled (length (heap s)), u))
   \<and> \<not> instanceof_Promise (Thenable y)"
proof (intro impI conjI)
  assume cell: "innerResult this s = (Returns \<lparr>success = b, val = p\<rparr>, s)"
  show "instanceof_Promise p \<longleftrightarrow> (\<exists>q k. fst (awaited this s) = Await q k)"
  proof (cases "instanceof_Promise p")
    case True
    then obtain q where "p = Promise q" by (cases p) simp_all
    with cell True show ?thesis by (simp add: awaited_Promise)
  next
    case False
    with cell show ?thesis by (simp add: awaited_not_Promise)
  qed
  {
    assume no: "\<not> instanceof_Promise p"
    with cell show call: "awaited this s
        = (Done (Returns (length (heap s))), s\<lparr>heap := heap s @ [\<lparr>success = b, val = p\<rparr>]\<rparr>)"
      by (rule awaited_not_Promise)
    show "complete (fst (awaited this s)) u = (Fulfilled (length (heap s)), u)"
      by (simp add: call)
  }
next
  show "\<not> instanceof_Promise (Thenable y)" by simp
qed

theorem awaited_awaits_only_Promise_instances_witness:
  "innerResult 0 \<lparr>heap = [\<lparr>success = True, val = Thenable (Fulfilled (Number 5))\<rparr>], world = ()\<rparr>
     = (Returns \<lparr>success = True, val = Thenable (Fulfilled (Number 5))\<rparr>,
        \<lparr>heap = [\<lparr>success = True, val = Thenable (Fulfilled (Number 5))\<rparr>], world = ()\<rparr>)
   \<and> \<not> instanceof_Promise (Thenable (Fulfilled (Number 5)))
   \<and> awaited 0 \<lparr>heap = [\<lparr>success = True, val = Thenable (Fulfilled (Number 5))\<rparr>], world = ()\<rparr>
     = (Done (Returns 1),
        \<lparr>heap = [\<lparr>success = True, val = Thenable (Fulfilled (Number 5))\<rparr>,
                 \<lparr>success = True, val = Thenable (Fulfilled (Number 5))\<rparr>],
         world = ()\<rparr>)"
  using
    awaited_awaits_only_Promise_instances
      [where this = 0 and b = True and p = "Thenable (Fulfilled (Number 5))"
         and s = "\<lparr>heap = [\<lparr>success = True, val = Thenable (Fulfilled (Number 5))\<rparr>], world = ()\<rparr>"
         and u = "\<lparr>heap = [\<lparr>success = True, val = Thenable (Fulfilled (Number 5))\<rparr>], world = ()\<rparr>"]
  by (simp add: innerResult_def)

section \<open>The CAPTCHA wrapper's validate\<close>

lemma new_TurnstileError_codes:
  "\<exists>message. new_TurnstileError codes = TurnstileError message codes"
  by (simp add: new_TurnstileError_def)

text \<open>
  C9. Let the request that \<open>validate\<close> builds be answered with the body \<open>response\<close>, and let
  \<open>u\<close> be the state in which \<open>validate\<close> goes on after its \<open>await\<close>. The call itself
  changes nothing. When the field \<open>success\<close> of the body is true, the promise of
  \<open>validate\<close> is fulfilled with a new Ok instance whose payload is the body. When it is
  false, the promise is fulfilled with a new Err instance whose payload is the
  \<open>TurnstileError\<close> constructed from the \<open>error-codes\<close> of the body, which it carries as
  its \<open>codes\<close>.
\<close>

theorem validate_maps_response_to_Result:
  "req fetch json (validate_request this token ip idempotencyKey) = Fulfilled response \<longrightarrow>
     snd (validate fetch json this token ip idempotencyKey s) = s
   \<and> (response_success response \<longrightarrow>
        complete (fst (validate fetch json this token ip idempotencyKey s)) u
          = (Fulfilled (length (heap u)),
             u\<lparr>heap := heap u @ [\<lparr>success = True, val = Body response\<rparr>]\<rparr>))
   \<and> (\<not> response_success response \<longrightarrow>
        complete (fst (validate fetch json this token ip idempotencyKey s)) u
          = (Fulfilled (length (heap u)),
             u\<lparr>heap := heap u
                  @ [\<lparr>success = False, val = new_TurnstileError (error_codes response)\<rparr>]\<rparr>)
      \<and> (\<exists>message. new_TurnstileError (error_codes response)
            = TurnstileError message (error_codes response)))"
  by (simp add: validate_def Result_ok_def Result_err_def new_Result_def
        new_TurnstileError_codes)

theorem validate_maps_response_to_Result_witness:
  "req (\<lambda>request. Fulfilled (url request))
       (\<lambda>r. Fulfilled (TurnstileAPIErrorResponse [invalid_input_response, timeout_or_duplicate]))
       (validate_request \<lparr>secretKey = ''2x0000000000000000000000000000000AA''\<rparr>
          ''token'' (Some ''127.0.0.1'') None)
     = Fulfilled (TurnstileAPIErrorResponse [invalid_input_response, timeout_or_duplicate])
   \<and> \<not> response_success (TurnstileAPIErrorResponse [invalid_input_response, timeout_or_duplicate])
   \<and> complete
        (fst (validate (\<lambda>request. Fulfilled (url request))
                (\<lambda>r. Fulfilled
                   (TurnstileAPIErrorResponse [invalid_input_response, timeout_or_duplicate]))
                \<lparr>secretKey = ''2x0000000000000000000000000000000AA''\<rparr>
                ''token'' (Some ''127.0.0.1'') None \<lparr>heap = [], world = ()\<rparr>))
        \<lparr>heap = [], world = ()\<rparr>
     = (Fulfilled 0,
        \<lparr>heap =
           [\<lparr>success = False,
             val = TurnstileError
                     (''Cloudflare Turnstile returned error codes: '' @ [CHR 0x27]
                        @ ''invalid-input-response'' @ [CHR 0x27] @ '', '' @ [CHR 0x27]
                        @ ''timeout-or-duplicate'' @ [CHR 0x27])
                     [invalid_input_response, timeout_or_duplicate]\<rparr>],
         world = ()\<rparr>)
   \<and> req (\<lambda>request. Fulfilled (url request))
         (\<lambda>r. Fulfilled (TurnstileAPISuccessResponse ''2026'' ''example.org'' [] ''login'' ''c''))
         (validate_request \<lparr>secretKey = ''1x0000000000000000000000000000000AA''\<rparr>
            ''token'' None None)
     = Fulfilled (TurnstileAPISuccessResponse ''2026'' ''example.org'' [] ''login'' ''c'')
   \<and> response_success (TurnstileAPISuccessResponse ''2026'' ''example.org'' [] ''login'' ''c'')
   \<and> complete
        (fst (validate (\<lambda>request. Fulfilled (url request))
                (\<lambda>r. Fulfilled
                   (TurnstileAPISuccessResponse ''2026'' ''example.org'' [] ''login'' ''c''))
                \<lparr>secretKey = ''1x0000000000000000000000000000000AA''\<rparr>
                ''token'' None None \<lparr>heap = [], world = ()\<rparr>))
        \<lparr>heap = [], world = ()\<rparr>
     = (Fulfilled 0,
        \<lparr>heap =
           [\<lparr>success = True,
             val = Body (TurnstileAPISuccessResponse ''2026'' ''example.org'' [] ''login'' ''c'')\<rparr>],
         world = ()\<rparr>)"
  using
    validate_maps_response_to_Result
      [where fetch = "\<lambda>request. Fulfilled (url request)"
         and json = "\<lambda>r. Fulfilled
                      (TurnstileAPIErrorResponse [invalid_input_response, timeout_or_duplicate])"
         and this = "\<lparr>secretKey = ''2x0000000000000000000000000000000AA''\<rparr>"
         and token = "''token''" and ip = "Some ''127.0.0.1''" and idempotencyKey = None
         and response = "TurnstileAPIErrorResponse [invalid_input_response, timeout_or_duplicate]"
         and s = "\<lparr>heap = [], world = ()\<rparr>" and u = "\<lparr>heap = [], world = ()\<rparr>"]
    validate_maps_response_to_Result
      [where fetch = "\<lambda>request. Fulfilled (url request)"
         and json = "\<lambda>r. Fulfilled
                      (TurnstileAPISuccessResponse ''2026'' ''example.org'' [] ''login'' ''c'')"
         and this = "\<lparr>secretKey = ''1x0000000000000000000000000000000AA''\<rparr>"
         and token = "''token''" and ip = None and idempotencyKey = None
         and response = "TurnstileAPISuccessResponse ''2026'' ''example.org'' [] ''login'' ''c''"
         and s = "\<lparr>heap = [], world = ()\<rparr>" and u = "\<lparr>heap = [], world = ()\<rparr>"]
  by (simp add: req_def new_TurnstileError_def)

section \<open>No operation writes to an existing instance\<close>

lemma kept_refl: "kept a s s"
  by (simp add: kept_def)

lemma kept_trans: "kept a s s1 \<Longrightarrow> kept a s1 s2 \<Longrightarrow> kept a s s2"
  by (simp add: kept_def)

lemma kept_valid: "a < length (heap s) \<Longrightarrow> kept a s s1 \<Longrightarrow> a < length (heap s1)"
  by (auto simp add: kept_def innerResult_def split: if_splits)

lemma kept_new_Result: "a < length (heap s) \<Longrightarrow> kept a s (snd (new_Result c s))"
  by (simp add: kept_def new_Result_def innerResult_def nth_append)

lemma kept_bind:
  assumes "kept a s (snd (m s))"
      and "\<And>x s1. m s = (Returns x, s1) \<Longrightarrow> kept a s1 (snd (k x s1))"
  shows "kept a s (snd (bind m k s))"
proof (cases "m s")
  case (Pair out s1)
  show ?thesis
  proof (cases out)
    case (Returns x)
    with Pair assms(2) have "kept a s1 (snd (k x s1))" by simp
    moreover from Pair assms(1) have "kept a s s1" by simp
    ultimately show ?thesis using Pair Returns by (simp add: bind_def kept_trans)
  next
    case (Throws e)
    with Pair assms(1) show ?thesis by (simp add: bind_def)
  qed
qed

lemma leaves_ret: "leaves a (\<lambda>x. ret (c x)) s"
  by (simp add: leaves_def ret_def kept_refl)

lemma leaves_throw: "leaves a (\<lambda>x. throw (c x)) s"
  by (simp add: leaves_def throw_def kept_refl)

lemma leaves_then_new:
  assumes "a < length (heap s)" and "leaves a op s"
  shows "leaves a (\<lambda>x. bind (op x) (\<lambda>y. new_Result (c y))) s"
  unfolding leaves_def
proof
  fix x
  show "kept a s (snd (bind (op x) (\<lambda>y. new_Result (c y)) s))"
  proof (rule kept_bind)
    show first: "kept a s (snd (op x s))" using assms(2) by (simp add: leaves_def)
    fix y s1
    assume "op x s = (Returns y, s1)"
    with first have "kept a s s1" by simp
    with assms(1) have "a < length (heap s1)" by (rule kept_valid)
    then show "kept a s1 (snd (new_Result (c y) s1))" by (rule kept_new_Result)
  qed
qed

lemma kept_match:
  assumes "leaves a f s" and "leaves a g s"
  shows "kept a s (snd (match this f g s))"
  using assms
  by (simp add: match_def bind_def innerResult_def leaves_def kept_refl)

lemma kept_read:
  "snd (bind (innerResult this) (\<lambda>r. ret (c r)) s) = s"
  by (simp add: bind_def innerResult_def ret_def)

lemma kept_isOk: "kept a s (snd (isOk this s))"
  by (simp add: isOk_def kept_read kept_refl)

lemma kept_isErr: "kept a s (snd (isErr this s))"
  by (simp add: isErr_def kept_read kept_refl)

lemma kept_ok: "kept a s (snd (ok this flag s))"
  by (simp add: ok_def bind_def innerResult_def ret_def kept_refl)

lemma kept_err: "kept a s (snd (err this flag s))"
  by (simp add: err_def bind_def innerResult_def ret_def kept_refl)

lemma kept_isOkAnd: "leaves a p s \<Longrightarrow> kept a s (snd (isOkAnd this p s))"
  unfolding isOkAnd_def by (rule kept_match) (simp_all add: leaves_ret)

lemma kept_isErrAnd: "leaves a p s \<Longrightarrow> kept a s (snd (isErrAnd this p s))"
  unfolding isErrAnd_def by (rule kept_match) (simp_all add: leaves_ret)

lemma kept_map_result:
  "a < length (heap s) \<Longrightarrow> leaves a f s \<Longrightarrow> kept a s (snd (map_result this f s))"
  unfolding map_result_def Result_ok_def
  by (rule kept_match) (simp_all add: leaves_then_new leaves_ret)

lemma kept_mapErr:
  "a < length (heap s) \<Longrightarrow> leaves a f s \<Longrightarrow> kept a s (snd (mapErr this f s))"
  unfolding mapErr_def Result_err_def
  by (rule kept_match) (simp_all add: leaves_then_new leaves_ret)

lemma kept_mapOr: "leaves a f s \<Longrightarrow> kept a s (snd (mapOr this c f s))"
  unfolding mapOr_def by (rule kept_match) (simp_all add: leaves_ret)

lemma kept_mapOrElse:
  "leaves a g s \<Longrightarrow> leaves a f s \<Longrightarrow> kept a s (snd (mapOrElse this g f s))"
  unfolding mapOrElse_def by (rule kept_match) simp_all

lemma kept_inspect: "leaves a f s \<Longrightarrow> kept a s (snd (inspect this f s))"
  by (cases "f (val (heap s ! this)) s"; cases "fst (f (val (heap s ! this)) s)")
     (auto simp add: inspect_def bind_def innerResult_def ret_def leaves_def kept_refl
        dest: spec [where x = "val (heap s ! this)"])

lemma kept_inspectErr: "leaves a f s \<Longrightarrow> kept a s (snd (inspectErr this f s))"
  by (cases "f (val (heap s ! this)) s"; cases "fst (f (val (heap s ! this)) s)")
     (auto simp add: inspectErr_def bind_def innerResult_def ret_def leaves_def kept_refl
        dest: spec [where x = "val (heap s ! this)"])

lemma kept_and_result: "kept a s (snd (and_result this res s))"
  unfolding and_result_def by (rule kept_match) (simp_all add: leaves_ret)

lemma kept_or_result: "kept a s (snd (or_result this res s))"
  unfolding or_result_def by (rule kept_match) (simp_all add: leaves_ret)

lemma kept_andThen: "leaves a h s \<Longrightarrow> kept a s (snd (andThen this h s))"
  unfolding andThen_def by (rule kept_match) (simp_all add: leaves_ret)

lemma kept_orElse: "leaves a h s \<Longrightarrow> kept a s (snd (orElse this h s))"
  unfolding orElse_def by (rule kept_match) (simp_all add: leaves_ret)

lemma kept_unwrap: "kept a s (snd (unwrap this s))"
  unfolding unwrap_def by (rule kept_match) (simp_all add: leaves_ret leaves_throw)

lemma kept_unwrapOr: "kept a s (snd (unwrapOr this c s))"
  unfolding unwrapOr_def by (rule kept_match) (simp_all add: leaves_ret)

lemma kept_unwrapOrElse: "kept a s (snd (d s)) \<Longrightarrow> kept a s (snd (unwrapOrElse this d s))"
  unfolding unwrapOrElse_def by (rule kept_match) (simp_all add: leaves_ret leaves_def)

lemma kept_orThrow: "kept a s (snd (orThrow this s))"
  unfolding orThrow_def by (rule kept_match) (simp_all add: leaves_ret leaves_throw)

lemma kept_branch: "kept a s (snd (branch this s))"
  unfolding branch_def by (rule kept_match) (simp_all add: leaves_ret)

lemma instance_cell:
  assumes "this < length (heap s)"
  obtains b p where "innerResult this s = (Returns \<lparr>success = b, val = p\<rparr>, s)"
proof -
  obtain b p where "heap s ! this = \<lparr>success = b, val = p\<rparr>"
    by (cases "heap s ! this") simp
  with assms have "innerResult this s = (Returns \<lparr>success = b, val = p\<rparr>, s)"
    by (simp add: innerResult_def)
  then show thesis by (rule that)
qed

lemma constructor_of_tag:
  "(if b then Result_ok else Result_err) = (\<lambda>x. new_Result \<lparr>success = b, val = x\<rparr>)"
  by (simp add: fun_eq_iff Result_ok_def Result_err_def)

lemma awaited_call_cases:
  "snd (awaited this s) = s
   \<or> (\<exists>c. snd (awaited this s) = snd (new_Result c s))"
proof (cases "this < length (heap s)")
  case False
  then show ?thesis by (simp add: awaited_def innerResult_def)
next
  case True
  then obtain b p where cell: "innerResult this s = (Returns \<lparr>success = b, val = p\<rparr>, s)"
    by (rule instance_cell)
  show ?thesis
  proof (cases "instanceof_Promise p")
    case True
    then obtain q where "p = Promise q" by (cases p) simp_all
    with cell show ?thesis by (simp add: awaited_Promise)
  next
    case False
    with cell have "snd (awaited this s) = snd (new_Result \<lparr>success = b, val = p\<rparr> s)"
      by (simp add: awaited_not_Promise new_Result_def)
    then show ?thesis by blast
  qed
qed

lemma kept_awaited_call: "a < length (heap s) \<Longrightarrow> kept a s (snd (awaited this s))"
  using awaited_call_cases [of this s] by (auto simp add: kept_refl kept_new_Result)

lemma awaited_shape:
  "(\<exists>out. fst (awaited this s) = Done out)
   \<or> (\<exists>q b. fst (awaited this s) = Await q (\<lambda>x. new_Result \<lparr>success = b, val = x\<rparr>))"
proof (cases "this < length (heap s)")
  case False
  then show ?thesis by (simp add: awaited_def innerResult_def)
next
  case True
  then obtain b p where cell: "innerResult this s = (Returns \<lparr>success = b, val = p\<rparr>, s)"
    by (rule instance_cell)
  show ?thesis
  proof (cases "instanceof_Promise p")
    case True
    then obtain q where "p = Promise q" by (cases p) simp_all
    with cell have "fst (awaited this s) = Await q (\<lambda>x. new_Result \<lparr>success = b, val = x\<rparr>)"
      by (simp add: awaited_Promise constructor_of_tag)
    then show ?thesis by blast
  next
    case False
    with cell show ?thesis by (simp add: awaited_not_Promise)
  qed
qed

lemma kept_complete_Done: "kept a u (snd (complete (Done out) u))"
  by (cases out) (simp_all add: kept_refl)

lemma kept_complete_Await_new:
  "a < length (heap u) \<Longrightarrow>
     kept a u (snd (complete (Await q (\<lambda>x. new_Result \<lparr>success = b, val = x\<rparr>)) u))"
  by (cases q) (simp_all add: kept_refl new_Result_def kept_def innerResult_def nth_append)

lemma kept_awaited_complete:
  "a < length (heap u) \<Longrightarrow> kept a u (snd (complete (fst (awaited this s)) u))"
  using awaited_shape [of this s]
  by (auto simp add: kept_complete_Done kept_complete_Await_new)

text \<open>
  The field \<open>innerResult\<close> is public and assignable, and the operations call the
  callbacks of the caller. An instance made by \<open>Result.ok(1)\<close> answers \<open>isOk()\<close> with
  true; after \<open>r.inspect((_) => { r.innerResult = { success: false, value: "x" } })\<close>
  the same instance is the Err variant with payload \<open>"x"\<close> and answers \<open>isOk()\<close> with
  false.
\<close>

theorem receiver_changed_by_assigning_callback:
  "Result_ok (Number 1) \<lparr>heap = [], world = ()\<rparr>
     = (Returns 0, \<lparr>heap = [\<lparr>success = True, val = Number 1\<rparr>], world = ()\<rparr>)
   \<and> isOk 0 \<lparr>heap = [\<lparr>success = True, val = Number 1\<rparr>], world = ()\<rparr>
     = (Returns True, \<lparr>heap = [\<lparr>success = True, val = Number 1\<rparr>], world = ()\<rparr>)
   \<and> inspect 0 (assign_innerResult 0 \<lparr>success = False, val = Str ''x''\<rparr>)
         \<lparr>heap = [\<lparr>success = True, val = Number 1\<rparr>], world = ()\<rparr>
     = (Returns 0, \<lparr>heap = [\<lparr>success = False, val = Str ''x''\<rparr>], world = ()\<rparr>)
   \<and> isOk 0 \<lparr>heap = [\<lparr>success = False, val = Str ''x''\<rparr>], world = ()\<rparr>
     = (Returns False, \<lparr>heap = [\<lparr>success = False, val = Str ''x''\<rparr>], world = ()\<rparr>)
   \<and> \<not> kept 0 \<lparr>heap = [\<lparr>success = True, val = Number 1\<rparr>], world = ()\<rparr>
         (snd (inspect 0 (assign_innerResult 0 \<lparr>success = False, val = Str ''x''\<rparr>)
                 \<lparr>heap = [\<lparr>success = True, val = Number 1\<rparr>], world = ()\<rparr>))"
  by (simp add: Result_ok_def new_Result_def isOk_def inspect_def assign_innerResult_def
        bind_def innerResult_def ret_def kept_def)

text \<open>
  C8, amended. Let \<open>this\<close> be an instance, and let the callbacks handed to an operation,
  called in the state of the call, leave \<open>this\<close> as it is. Then after every operation of
  \<open>Result\<close> the tag and the payload of \<open>this\<close> are what they were before the call: the
  queries, the projections, the transforms, the extractions (also when they throw),
  \<open>match\<close>, \<open>branch\<close>, and \<open>awaited\<close>, both at the call and when its promise settles in a
  later state \<open>u\<close> in which \<open>this\<close> exists.
\<close>

theorem operations_leave_receiver_unchanged:
  assumes "this < length (heap s)"
      and "leaves this p s" and "leaves this f s" and "leaves this g s" and "leaves this h s"
      and "kept this s (snd (d s))"
      and "this < length (heap u)"
  shows
    "kept this s (snd (isOk this s))
   \<and> kept this s (snd (isOkAnd this p s))
   \<and> kept this s (snd (isErr this s))
   \<and> kept this s (snd (isErrAnd this p s))
   \<and> kept this s (snd (ok this flag s))
   \<and> kept this s (snd (err this flag s))
   \<and> kept this s (snd (map_result this f s))
   \<and> kept this s (snd (mapOr this c f s))
   \<and> kept this s (snd (mapOrElse this g f s))
   \<and> kept this s (snd (mapErr this f s))
   \<and> kept this s (snd (inspect this f s))
   \<and> kept this s (snd (inspectErr this f s))
   \<and> kept this s (snd (and_result this res s))
   \<and> kept this s (snd (andThen this h s))
   \<and> kept this s (snd (or_result this res s))
   \<and> kept this s (snd (orElse this h s))
   \<and> kept this s (snd (unwrap this s))
   \<and> kept this s (snd (unwrapOr this c s))
   \<and> kept this s (snd (unwrapOrElse this d s))
   \<and> kept this s (snd (orThrow this s))
   \<and> kept this s (snd (match this f g s))
   \<and> kept this s (snd (branch this s))
   \<and> kept this s (snd (awaited this s))
   \<and> kept this u (snd (complete (fst (awaited this s)) u))"
proof (intro conjI)
  show "kept this s (snd (isOk this s))" by (rule kept_isOk)
  show "kept this s (snd (isOkAnd this p s))" using assms(2) by (rule kept_isOkAnd)
  show "kept this s (snd (isErr this s))" by (rule kept_isErr)
  show "kept this s (snd (isErrAnd this p s))" using assms(2) by (rule kept_isErrAnd)
  show "kept this s (snd (ok this flag s))" by (rule kept_ok)
  show "kept this s (snd (err this flag s))" by (rule kept_err)
  show "kept this s (snd (map_result this f s))" using assms(1,3) by (rule kept_map_result)
  show "kept this s (snd (mapOr this c f s))" using assms(3) by (rule kept_mapOr)
  show "kept this s (snd (mapOrElse this g f s))" using assms(4,3) by (rule kept_mapOrElse)
  show "kept this s (snd (mapErr this f s))" using assms(1,3) by (rule kept_mapErr)
  show "kept this s (snd (inspect this f s))" using assms(3) by (rule kept_inspect)
  show "kept this s (snd (inspectErr this f s))" using assms(3) by (rule kept_inspectErr)
  show "kept this s (snd (and_result this res s))" by (rule kept_and_result)
  show "kept this s (snd (andThen this h s))" using assms(5) by (rule kept_andThen)
  show "kept this s (snd (or_result this res s))" by (rule kept_or_result)
  show "kept this s (snd (orElse this h s))" using assms(5) by (rule kept_orElse)
  show "kept this s (snd (unwrap this s))" by (rule kept_unwrap)
  show "kept this s (snd (unwrapOr this c s))" by (rule kept_unwrapOr)
  show "kept this s (snd (unwrapOrElse this d s))" using assms(6) by (rule kept_unwrapOrElse)
  show "kept this s (snd (orThrow this s))" by (rule kept_orThrow)
  show "kept this s (snd (match this f g s))" using assms(3,4) by (rule kept_match)
  show "kept this s (snd (branch this s))" by (rule kept_branch)
  show "kept this s (snd (awaited this s))" using assms(1) by (rule kept_awaited_call)
  show "kept this u (snd (complete (fst (awaited this s)) u))"
    using assms(7) by (rule kept_awaited_complete)
qed

theorem operations_leave_receiver_unchanged_witness:
  "(0::nat) < length (heap \<lparr>heap = [\<lparr>success = True, val = Promise (Fulfilled (Number 2))\<rparr>],
                             world = (0::nat)\<rparr>)
   \<and> leaves 0 (\<lambda>x. ret (x = Null))
        \<lparr>heap = [\<lparr>success = True, val = Promise (Fulfilled (Number 2))\<rparr>], world = (0::nat)\<rparr>
   \<and> leaves 0 (\<lambda>x s. (Returns x, s\<lparr>world := world s + 1\<rparr>))
        \<lparr>heap = [\<lparr>success = True, val = Promise (Fulfilled (Number 2))\<rparr>], world = (0::nat)\<rparr>
   \<and> leaves 0 (\<lambda>x. throw x)
        \<lparr>heap = [\<lparr>success = True, val = Promise (Fulfilled (Number 2))\<rparr>], world = (0::nat)\<rparr>
   \<and> leaves 0 Result_err
        \<lparr>heap = [\<lparr>success = True, val = Promise (Fulfilled (Number 2))\<rparr>], world = (0::nat)\<rparr>
   \<and> kept 0
        \<lparr>heap = [\<lparr>success = True, val = Promise (Fulfilled (Number 2))\<rparr>], world = (0::nat)\<rparr>
        (snd (ret Null
           \<lparr>heap = [\<lparr>success = True, val = Promise (Fulfilled (Number 2))\<rparr>], world = (0::nat)\<rparr>))
   \<and> kept 0
        \<lparr>heap = [\<lparr>success = True, val = Promise (Fulfilled (Number 2))\<rparr>], world = (0::nat)\<rparr>
        (snd (map_result 0 (\<lambda>x s. (Returns x, s\<lparr>world := world s + 1\<rparr>))
           \<lparr>heap = [\<lparr>success = True, val = Promise (Fulfilled (Number 2))\<rparr>], world = (0::nat)\<rparr>))
   \<and> kept 0
        \<lparr>heap = [\<lparr>success = True, val = Promise (Fulfilled (Number 2))\<rparr>], world = (0::nat)\<rparr>
        (snd (andThen 0 Result_err
           \<lparr>heap = [\<lparr>success = True, val = Promise (Fulfilled (Number 2))\<rparr>], world = (0::nat)\<rparr>))
   \<and> kept 0
        \<lparr>heap = [\<lparr>success = True, val = Promise (Fulfilled (Number 2))\<rparr>], world = (0::nat)\<rparr>
        (snd (complete
           (fst (awaited 0
              \<lparr>heap = [\<lparr>success = True, val = Promise (Fulfilled (Number 2))\<rparr>],
               world = (0::nat)\<rparr>))
           \<lparr>heap = [\<lparr>success = True, val = Promise (Fulfilled (Number 2))\<rparr>], world = (0::nat)\<rparr>))"
proof -
  let ?S = "\<lparr>heap = [\<lparr>success = True, val = Promise (Fulfilled (Number 2))\<rparr>], world = (0::nat)\<rparr>"
  have valid: "(0::nat) < length (heap ?S)" by simp
  have p: "leaves 0 (\<lambda>x. ret (x = Null)) ?S" by (rule leaves_ret)
  have f: "leaves 0 (\<lambda>x s. (Returns x, s\<lparr>world := world s + 1\<rparr>)) ?S"
    by (simp add: leaves_def kept_def innerResult_def)
  have g: "leaves 0 (\<lambda>x. throw x) ?S" by (rule leaves_throw)
  have h: "leaves 0 Result_err ?S"
    by (simp add: leaves_def kept_def innerResult_def Result_err_def new_Result_def)
  have d: "kept 0 ?S (snd (ret Null ?S))" by (simp add: ret_def kept_refl)
  from operations_leave_receiver_unchanged
         [where this = 0 and s = ?S and u = ?S and p = "\<lambda>x. ret (x = Null)"
            and f = "\<lambda>x s. (Returns x, s\<lparr>world := world s + 1\<rparr>)"
            and g = "\<lambda>x. throw x" and h = Result_err and d = "ret Null",
          OF valid p f g h d valid]
  have "kept 0 ?S (snd (map_result 0 (\<lambda>x s. (Returns x, s\<lparr>world := world s + 1\<rparr>)) ?S))
      \<and> kept 0 ?S (snd (andThen 0 Result_err ?S))
      \<and> kept 0 ?S (snd (complete (fst (awaited 0 ?S)) ?S))"
    by simp
  with valid p f g h d show ?thesis by simp
qed

end
